theory Spec2Isabelle
  imports Complex_Main "HOL-Library.Multiset" "HOL-Library.Signed_Division"
begin

section \<open>Double-precision values\<close>

text \<open>
  The source computes with C++ \<open>double\<close>. A double is modelled as an exact real number
  or one of the three special values of IEEE 754. Operations on the special values follow
  IEEE 754; on finite values they are exact: rounding, overflow to infinity and the sign
  of zero are not modelled (a finite value divided by zero is taken as divided by \<open>+0\<close>).
\<close>

datatype dbl = Fin real | PInf | NInf | NaN

fun dneg :: "dbl \<Rightarrow> dbl" where
  "dneg (Fin a) = Fin (- a)"
| "dneg PInf = NInf"
| "dneg NInf = PInf"
| "dneg NaN = NaN"

fun dadd :: "dbl \<Rightarrow> dbl \<Rightarrow> dbl" where
  "dadd (Fin a) (Fin b) = Fin (a + b)"
| "dadd NaN _ = NaN"
| "dadd _ NaN = NaN"
| "dadd PInf NInf = NaN"
| "dadd NInf PInf = NaN"
| "dadd PInf _ = PInf"
| "dadd _ PInf = PInf"
| "dadd NInf _ = NInf"
| "dadd _ NInf = NInf"

definition dsub :: "dbl \<Rightarrow> dbl \<Rightarrow> dbl" where
  "dsub a b = dadd a (dneg b)"

text \<open>The sign of a product or quotient whose magnitude is infinite.\<close>

definition infOfSign :: "bool \<Rightarrow> dbl" where
  "infOfSign negative = (if negative then NInf else PInf)"

fun dmul :: "dbl \<Rightarrow> dbl \<Rightarrow> dbl" where
  "dmul (Fin a) (Fin b) = Fin (a * b)"
| "dmul NaN _ = NaN"
| "dmul _ NaN = NaN"
| "dmul (Fin a) PInf = (if a = 0 then NaN else infOfSign (a < 0))"
| "dmul (Fin a) NInf = (if a = 0 then NaN else infOfSign (0 < a))"
| "dmul PInf (Fin b) = (if b = 0 then NaN else infOfSign (b < 0))"
| "dmul NInf (Fin b) = (if b = 0 then NaN else infOfSign (0 < b))"
| "dmul PInf PInf = PInf"
| "dmul PInf NInf = NInf"
| "dmul NInf PInf = NInf"
| "dmul NInf NInf = PInf"

fun ddiv :: "dbl \<Rightarrow> dbl \<Rightarrow> dbl" where
  "ddiv (Fin a) (Fin b) =
     (if b \<noteq> 0 then Fin (a / b) else if a = 0 then NaN else infOfSign (a < 0))"
| "ddiv NaN _ = NaN"
| "ddiv _ NaN = NaN"
| "ddiv (Fin a) PInf = Fin 0"
| "ddiv (Fin a) NInf = Fin 0"
| "ddiv PInf (Fin b) = infOfSign (b < 0)"
| "ddiv NInf (Fin b) = infOfSign (0 \<le> b)"
| "ddiv PInf PInf = NaN"
| "ddiv PInf NInf = NaN"
| "ddiv NInf PInf = NaN"
| "ddiv NInf NInf = NaN"

fun dsqrt :: "dbl \<Rightarrow> dbl" where
  "dsqrt (Fin a) = (if a < 0 then NaN else Fin (sqrt a))"
| "dsqrt PInf = PInf"
| "dsqrt NInf = NaN"
| "dsqrt NaN = NaN"

fun datan :: "dbl \<Rightarrow> dbl" where
  "datan (Fin a) = Fin (arctan a)"
| "datan PInf = Fin (pi / 2)"
| "datan NInf = Fin (- (pi / 2))"
| "datan NaN = NaN"

fun dcos :: "dbl \<Rightarrow> dbl" where
  "dcos (Fin a) = Fin (cos a)"
| "dcos _ = NaN"

fun dsin :: "dbl \<Rightarrow> dbl" where
  "dsin (Fin a) = Fin (sin a)"
| "dsin _ = NaN"

fun dabs :: "dbl \<Rightarrow> dbl" where
  "dabs (Fin a) = Fin \<bar>a\<bar>"
| "dabs PInf = PInf"
| "dabs NInf = PInf"
| "dabs NaN = NaN"

text \<open>The comparison \<open>a < b\<close> of two doubles: false as soon as one of them is NaN.\<close>

fun dless :: "dbl \<Rightarrow> dbl \<Rightarrow> bool" where
  "dless (Fin a) (Fin b) = (a < b)"
| "dless NaN _ = False"
| "dless _ NaN = False"
| "dless _ NInf = False"
| "dless PInf _ = False"
| "dless NInf _ = True"
| "dless _ PInf = True"

fun isFinite :: "dbl \<Rightarrow> bool" where
  "isFinite (Fin a) = True"
| "isFinite _ = False"

section \<open>Geometric transform: \<open>findArcLength\<close>\<close>

text \<open>
  \<open>xy\<close> is an array with one row per point; columns 0 and 1 are the coordinates read
  by the source. \<open>center\<close> is the two-component vector of the spiral centre.
\<close>

type_synonym point2 = "dbl \<times> dbl"

definition xOffset :: "point2 list \<Rightarrow> point2 \<Rightarrow> dbl list" where
  "xOffset xy center = map (\<lambda>p. dsub (fst p) (fst center)) xy"

definition yOffset :: "point2 list \<Rightarrow> point2 \<Rightarrow> dbl list" where
  "yOffset xy center = map (\<lambda>p. dsub (snd p) (snd center)) xy"

definition findArcLength :: "point2 list \<Rightarrow> point2 \<Rightarrow> dbl list" where
  "findArcLength xy center =
     (let xOff = xOffset xy center;
          yOff = yOffset xy center;
          rads = map2 (\<lambda>x y. dsqrt (dadd (dmul x x) (dmul y y))) xOff yOff;
          thetas = map2 (\<lambda>x y. datan (ddiv y x)) xOff yOff
      in map2 dmul rads thetas)"

section \<open>Point classifier: \<open>classifyPoints\<close>\<close>

text \<open>
  \<open>houghLineFunc\<close> solves the Hough line equation for the second coordinate. The source
  applies it to a whole column; the model applies it to each coefficient.
\<close>

definition houghLineFunc :: "dbl \<Rightarrow> dbl \<Rightarrow> dbl \<Rightarrow> dbl" where
  "houghLineFunc x rad theta = ddiv (dsub rad (dmul x (dcos theta))) (dsin theta)"

record HoughSpiralCleanerResult =
  labels :: "int list"
  distancesToNearestLine :: "dbl list"

text \<open>The constructor: every point unassigned (\<open>-1\<close>) and infinitely far away.\<close>

definition newResult :: "nat \<Rightarrow> HoughSpiralCleanerResult" where
  "newResult numPts =
     \<lparr>labels = replicate numPts (- 1), distancesToNearestLine = replicate numPts PInf\<rparr>"

datatype error =
  SizeMismatch | IndexOutOfRange int | BlockOutOfRange | IteratorOutOfRange | DivisionByZero

text \<open>
  Eigen checks the arguments of its accessors by assertions: the index of a coefficient
  access \<open>v(i)\<close> must satisfy \<open>0 \<le> i < size\<close>, the two operands of a coefficient-wise
  operation must have the same size, and a block must lie inside its vector. Where such an
  assertion fails the program stops; with the assertions compiled out its behaviour there
  is undefined. The model returns an \<open>error\<close> at each of these places and does not go on.

  The state of \<open>classifyPoints\<close> while it runs is the result under construction and the
  array \<open>pointsPerLine\<close>.
\<close>

record classifyState =
  result :: HoughSpiralCleanerResult
  pointsPerLine :: "int list"

text \<open>\<open>coeffAdd v i d\<close> is the statement \<open>v(i) += d\<close> on an array of counters.\<close>

definition coeffAdd :: "int list \<Rightarrow> int \<Rightarrow> int \<Rightarrow> error + int list" where
  "coeffAdd v i d =
     (if 0 \<le> i \<and> i < int (length v) then Inr (v[nat i := v ! nat i + d])
      else Inl (IndexOutOfRange i))"

text \<open>A loop whose body can fail: the first error ends it.\<close>

fun forEach :: "('a \<Rightarrow> 's \<Rightarrow> error + 's) \<Rightarrow> 'a list \<Rightarrow> 's \<Rightarrow> error + 's" where
  "forEach body [] s = Inr s"
| "forEach body (x # xs) s =
     (case body x s of Inl e \<Rightarrow> Inl e | Inr s' \<Rightarrow> forEach body xs s')"

text \<open>
  The body of the inner loop, for the point \<open>pointIdx\<close> and the line \<open>lineIdx\<close>. The
  source decrements \<open>pointsPerLine(oldLineIdx)\<close> whatever \<open>oldLineIdx\<close> is, then
  increments \<open>pointsPerLine(lineIdx)\<close>, then updates the label and the distance.
\<close>

definition pointStep ::
  "nat \<Rightarrow> dbl list \<Rightarrow> nat \<Rightarrow> classifyState \<Rightarrow> error + classifyState" where
  "pointStep lineIdx dists pointIdx st =
     (let newDist = dists ! pointIdx;
          oldDist = distancesToNearestLine (result st) ! pointIdx
      in if dless newDist oldDist then
           let oldLineIdx = labels (result st) ! pointIdx
           in case coeffAdd (pointsPerLine st) oldLineIdx (- 1) of
                Inl e \<Rightarrow> Inl e
              | Inr counts1 \<Rightarrow>
                  (case coeffAdd counts1 (int lineIdx) 1 of
                     Inl e \<Rightarrow> Inl e
                   | Inr counts2 \<Rightarrow>
                       Inr \<lparr>result =
                             \<lparr>labels = (labels (result st))[pointIdx := int lineIdx],
                              distancesToNearestLine =
                                (distancesToNearestLine (result st))[pointIdx := newDist]\<rparr>,
                           pointsPerLine = counts2\<rparr>)
         else Inr st)"

text \<open>The distances of all points to the line of radius \<open>rad\<close>.\<close>

definition lineDist :: "dbl list \<Rightarrow> dbl list \<Rightarrow> dbl \<Rightarrow> dbl \<Rightarrow> dbl list" where
  "lineDist zs arclens maxAngle rad =
     map2 (\<lambda>z s. dabs (dsub (houghLineFunc z rad maxAngle) s)) zs arclens"

definition lineStep ::
  "dbl list \<Rightarrow> dbl list \<Rightarrow> dbl \<Rightarrow> dbl list \<Rightarrow> nat \<Rightarrow> classifyState
     \<Rightarrow> error + classifyState" where
  "lineStep zs arclens maxAngle radii lineIdx st =
     (let rad = radii ! lineIdx;
          dists = lineDist zs arclens maxAngle rad
      in forEach (pointStep lineIdx dists) [0..<length zs] st)"

text \<open>The state before the first line, and the first loop of \<open>classifyPoints\<close>.\<close>

definition initialState :: "nat \<Rightarrow> nat \<Rightarrow> classifyState" where
  "initialState numPts numLinesFound =
     \<lparr>result = newResult numPts, pointsPerLine = replicate numLinesFound 0\<rparr>"

definition classifyLoop ::
  "dbl list \<Rightarrow> dbl list \<Rightarrow> dbl \<Rightarrow> dbl list \<Rightarrow> error + classifyState" where
  "classifyLoop zs arclens maxAngle radii =
     forEach (lineStep zs arclens maxAngle radii) [0..<length radii]
       (initialState (length zs) (length radii))"

text \<open>
  The elimination loop. The assignment to \<open>distancesToNearestLine\<close> in the source has no
  index: it fills the whole array.
\<close>

definition eliminatePoint :: "nat \<Rightarrow> nat \<Rightarrow> HoughSpiralCleanerResult \<Rightarrow> HoughSpiralCleanerResult" where
  "eliminatePoint lineIdx pointIdx res =
     (if labels res ! pointIdx = int lineIdx then
        \<lparr>labels = (labels res)[pointIdx := - 1],
         distancesToNearestLine = replicate (length (distancesToNearestLine res)) PInf\<rparr>
      else res)"

definition eliminateLine ::
  "int \<Rightarrow> int list \<Rightarrow> nat \<Rightarrow> nat \<Rightarrow> HoughSpiralCleanerResult \<Rightarrow> HoughSpiralCleanerResult" where
  "eliminateLine minPointsPerLine counts numPts lineIdx res =
     (if counts ! lineIdx < minPointsPerLine
      then fold (eliminatePoint lineIdx) [0..<numPts] res
      else res)"

definition eliminateLines ::
  "int \<Rightarrow> int list \<Rightarrow> nat \<Rightarrow> HoughSpiralCleanerResult \<Rightarrow> HoughSpiralCleanerResult" where
  "eliminateLines minPointsPerLine counts numPts res =
     fold (eliminateLine minPointsPerLine counts numPts) [0..<length counts] res"

text \<open>
  \<open>xyz\<close> has one row per point; the source reads only its number of rows and its
  column 2. In the first pass of the line loop Eigen subtracts \<open>arclens\<close> from that
  column, which needs the two to have the same size: \<open>SizeMismatch\<close> otherwise.
\<close>

type_synonym point3 = "dbl \<times> dbl \<times> dbl"

definition col2 :: "point3 list \<Rightarrow> dbl list" where
  "col2 xyz = map (\<lambda>p. snd (snd p)) xyz"

definition classifyPoints ::
  "int \<Rightarrow> point3 list \<Rightarrow> dbl list \<Rightarrow> dbl \<Rightarrow> dbl list \<Rightarrow> error + HoughSpiralCleanerResult" where
  "classifyPoints minPointsPerLine xyz arclens maxAngle radii =
     (let numLinesFound = length radii;
          numPts = length xyz
      in if 0 < numLinesFound \<and> length arclens \<noteq> numPts then Inl SizeMismatch
         else
           case classifyLoop (col2 xyz) arclens maxAngle radii of
             Inl e \<Rightarrow> Inl e
           | Inr st \<Rightarrow>
               Inr (eliminateLines minPointsPerLine (pointsPerLine st) numPts (result st)))"

section \<open>Peak locator: \<open>findPeakRadiusBins\<close>\<close>

text \<open>
  The slice holds one accumulator value per radius bin; the source casts them to
  \<open>double\<close> before it computes with them, so they are integers here.
  \<open>findPeakLocations\<close> is not among the sources: it is a parameter of the model, called
  as the source calls it.
\<close>

fun dsum :: "dbl list \<Rightarrow> dbl" where
  "dsum [] = Fin 0"
| "dsum (x # xs) = dadd x (dsum xs)"

definition ddot :: "dbl list \<Rightarrow> dbl list \<Rightarrow> dbl" where
  "ddot xs ys = dsum (map2 dmul xs ys)"

definition castDouble :: "int \<Rightarrow> dbl" where
  "castDouble v = Fin (real_of_int v)"

text \<open>
  \<open>segment firstPt n\<close> asserts in Eigen that the block lies inside the vector; a block
  that does not is \<open>BlockOutOfRange\<close>. \<open>LinSpaced (lastPt - firstPt + 1) firstPt lastPt\<close>
  is the list of the integers from \<open>firstPt\<close> to \<open>lastPt\<close>, as doubles.
\<close>

definition segment :: "int list \<Rightarrow> int \<Rightarrow> int \<Rightarrow> error + int list" where
  "segment v start n =
     (if 0 \<le> start \<and> 0 \<le> n \<and> start + n \<le> int (length v)
      then Inr (take (nat n) (drop (nat start) v))
      else Inl BlockOutOfRange)"

definition firstPtOf :: "int \<Rightarrow> int \<Rightarrow> int" where
  "firstPtOf peakWidth pkIdx = max (pkIdx - peakWidth) 0"

definition lastPtOf :: "int \<Rightarrow> int list \<Rightarrow> int \<Rightarrow> int" where
  "lastPtOf peakWidth houghSlice pkIdx = max (pkIdx + peakWidth) (int (length houghSlice) - 1)"

definition peakCtrOfGrav :: "int \<Rightarrow> int list \<Rightarrow> int \<Rightarrow> error + dbl" where
  "peakCtrOfGrav peakWidth houghSlice pkIdx =
     (let firstPt = firstPtOf peakWidth pkIdx;
          lastPt = lastPtOf peakWidth houghSlice pkIdx;
          positions = map castDouble [firstPt..lastPt]
      in case segment houghSlice firstPt (lastPt - firstPt + 1) of
           Inl e \<Rightarrow> Inl e
         | Inr seg \<Rightarrow>
             let vals = map castDouble seg
             in Inr (ddiv (ddot positions vals) (dsum vals)))"

fun peakLoop :: "int \<Rightarrow> int list \<Rightarrow> int list \<Rightarrow> error + dbl list" where
  "peakLoop peakWidth houghSlice [] = Inr []"
| "peakLoop peakWidth houghSlice (pkIdx # maxLocs) =
     (case peakCtrOfGrav peakWidth houghSlice pkIdx of
        Inl e \<Rightarrow> Inl e
      | Inr c \<Rightarrow>
          (case peakLoop peakWidth houghSlice maxLocs of
             Inl e \<Rightarrow> Inl e
           | Inr cs \<Rightarrow> Inr (c # cs)))"

definition findPeakRadiusBins ::
  "(int list \<Rightarrow> nat \<Rightarrow> int list) \<Rightarrow> int \<Rightarrow> int list \<Rightarrow> error + dbl list" where
  "findPeakRadiusBins findPeakLocations peakWidth houghSlice =
     peakLoop peakWidth houghSlice (findPeakLocations houghSlice 2)"

section \<open>Angle estimator: \<open>findMaxAngleBin\<close>\<close>

text \<open>
  The class \<open>HoughSpace\<close> is not among the sources. The model takes the two operations
  that \<open>findMaxAngleBin\<close> calls as the fields of a record.
\<close>

record HoughSpace =
  getNumBins :: int
  getValueAtBin :: "int \<Rightarrow> int \<Rightarrow> int"

type_synonym coef = "int \<times> int"

definition allIndices :: "HoughSpace \<Rightarrow> coef list" where
  "allIndices houghSpace =
     concat (map (\<lambda>i. map (\<lambda>j. (i, j)) [0..getNumBins houghSpace - 1])
                 [0..getNumBins houghSpace - 1])"

definition binLess :: "HoughSpace \<Rightarrow> coef \<Rightarrow> coef \<Rightarrow> bool" where
  "binLess houghSpace idxA idxB \<longleftrightarrow>
     getValueAtBin houghSpace (fst idxA) (snd idxA) < getValueAtBin houghSpace (fst idxB) (snd idxB)"

definition coefAdd :: "coef \<Rightarrow> coef \<Rightarrow> coef" where
  "coefAdd a b = (fst a + fst b, snd a + snd b)"

definition accumulate :: "coef list \<Rightarrow> coef \<Rightarrow> coef" where
  "accumulate xs init = foldl coefAdd init xs"

text \<open>
  \<open>std::sort\<close> leaves the order of equal elements open, so the sorting function is a
  parameter \<open>stdsort\<close>, given the comparison and the list. The range
  \<open>indices.end() - numAngleBinsToReduce\<close> to \<open>indices.end()\<close> exists only for
  \<open>0 \<le> numAngleBinsToReduce \<le> indices.size()\<close>, and the division of two integers needs
  a divisor other than zero; \<open>sdiv\<close> is the division of C++, which truncates. The
  \<open>floor\<close> of the source acts on integers and changes nothing.
\<close>

definition findMaxAngleBin ::
  "((coef \<Rightarrow> coef \<Rightarrow> bool) \<Rightarrow> coef list \<Rightarrow> coef list) \<Rightarrow> int \<Rightarrow> HoughSpace \<Rightarrow> error + int" where
  "findMaxAngleBin stdsort numAngleBinsToReduce houghSpace =
     (let indices = stdsort (binLess houghSpace) (allIndices houghSpace)
      in if numAngleBinsToReduce < 0 \<or> int (length indices) < numAngleBinsToReduce
         then Inl IteratorOutOfRange
         else if numAngleBinsToReduce = 0 then Inl DivisionByZero
         else
           let binTotal = accumulate
                 (drop (length indices - nat numAngleBinsToReduce) indices) (0, 0);
               meanBin = (fst binTotal sdiv numAngleBinsToReduce,
                          snd binTotal sdiv numAngleBinsToReduce)
           in Inr (fst meanBin))"

section \<open>The properties as the specification words them\<close>

text \<open>
  The perpendicular distance from the point \<open>(depth, arcLength)\<close> to the line
  \<open>depth * cos angle + arcLength * sin angle = radius\<close>, whose normal
  \<open>(cos angle, sin angle)\<close> has length one.
\<close>

definition perpendicularDistance :: "real \<Rightarrow> real \<Rightarrow> real \<Rightarrow> real \<Rightarrow> real" where
  "perpendicularDistance depth arcLength angle radius =
     \<bar>depth * cos angle + arcLength * sin angle - radius\<bar>"

text \<open>
  The centroid of the specification: the window of a peak \<open>p\<close> in a slice of \<open>B\<close> bins
  is \<open>[max (p - halfWidth) 0, min (p + halfWidth) (B - 1)]\<close>, and the centroid is the sum
  of index times value over the sum of the values, on that window.
\<close>

definition specWindow :: "int \<Rightarrow> int list \<Rightarrow> int \<Rightarrow> int list" where
  "specWindow halfWidth slice p =
     [max (p - halfWidth) 0 .. min (p + halfWidth) (int (length slice) - 1)]"

definition specCentroid :: "int \<Rightarrow> int list \<Rightarrow> int \<Rightarrow> real" where
  "specCentroid halfWidth slice p =
     (\<Sum>k\<leftarrow>specWindow halfWidth slice p. real_of_int k * real_of_int (slice ! nat k))
       / (\<Sum>k\<leftarrow>specWindow halfWidth slice p. real_of_int (slice ! nat k))"

text \<open>
  The window the source takes, and its sums. They agree with \<open>peakCtrOfGrav\<close> when the
  window lies inside the slice.
\<close>

definition codeWindow :: "int \<Rightarrow> int list \<Rightarrow> int \<Rightarrow> int list" where
  "codeWindow peakWidth houghSlice pkIdx =
     [firstPtOf peakWidth pkIdx .. lastPtOf peakWidth houghSlice pkIdx]"

definition windowSum :: "int list \<Rightarrow> int list \<Rightarrow> int" where
  "windowSum houghSlice window = (\<Sum>k\<leftarrow>window. houghSlice ! nat k)"

definition windowMoment :: "int list \<Rightarrow> int list \<Rightarrow> int" where
  "windowMoment houghSlice window = (\<Sum>k\<leftarrow>window. k * houghSlice ! nat k)"

section \<open>Predicates used in the statements\<close>

text \<open>
  What \<open>std::sort\<close> promises for the comparison \<open>lt\<close>: the result \<open>ys\<close> holds the
  elements of \<open>xs\<close>, and no element compares less than one that stands before it.
\<close>

definition sortedBy :: "('a \<Rightarrow> 'a \<Rightarrow> bool) \<Rightarrow> 'a list \<Rightarrow> 'a list \<Rightarrow> bool" where
  "sortedBy lt xs ys \<longleftrightarrow> mset ys = mset xs \<and> sorted_wrt (\<lambda>a b. \<not> lt b a) ys"

text \<open>The accumulator value of a bin, and what the last entries of the sorted list are
  compared by.\<close>

definition binValue :: "HoughSpace \<Rightarrow> coef \<Rightarrow> int" where
  "binValue houghSpace idx = getValueAtBin houghSpace (fst idx) (snd idx)"

text \<open>
  One function that meets the contract of \<open>std::sort\<close>, an insertion sort, and a
  Hough space of two by two bins, to run \<open>findMaxAngleBin\<close> on.
\<close>

fun insertBy :: "('a \<Rightarrow> 'a \<Rightarrow> bool) \<Rightarrow> 'a \<Rightarrow> 'a list \<Rightarrow> 'a list" where
  "insertBy lt x [] = [x]"
| "insertBy lt x (y # ys) = (if lt x y then x # y # ys else y # insertBy lt x ys)"

definition insertionSort :: "('a \<Rightarrow> 'a \<Rightarrow> bool) \<Rightarrow> 'a list \<Rightarrow> 'a list" where
  "insertionSort lt xs = foldr (insertBy lt) xs []"

definition twoByTwo :: HoughSpace where
  "twoByTwo = \<lparr>getNumBins = 2,
               getValueAtBin = (\<lambda>i j. if i = 0 then (if j = 0 then 5 else 1)
                                       else (if j = 0 then 9 else 7))\<rparr>"

section \<open>Facts about \<open>findArcLength\<close>\<close>

lemma findArcLength_nth:
  "i < length xy \<Longrightarrow>
   findArcLength xy center ! i =
     dmul (dsqrt (dadd (dmul (xOffset xy center ! i) (xOffset xy center ! i))
                       (dmul (yOffset xy center ! i) (yOffset xy center ! i))))
          (datan (ddiv (yOffset xy center ! i) (xOffset xy center ! i)))"
  by (simp add: findArcLength_def Let_def xOffset_def yOffset_def)

lemma length_findArcLength: "length (findArcLength xy center) = length xy"
  by (simp add: findArcLength_def Let_def xOffset_def yOffset_def)

text \<open>
  C5 (as the specification states it, refuted). The specification wants a point whose two
  offsets from the centre are zero to make the transform fail or to be left out. With the
  single point \<open>(1, 2)\<close> and the centre \<open>(1, 2)\<close>, \<open>findArcLength\<close> returns an array of
  one entry, and the entry is NaN.
\<close>

theorem findArcLength_zero_offset_counterexample:
  "findArcLength [(Fin 1, Fin 2)] (Fin 1, Fin 2) = [NaN]"
  by (simp add: findArcLength_def Let_def xOffset_def yOffset_def dsub_def)

text \<open>
  C5 (amended). \<open>findArcLength\<close> returns one arc length per input point, and for every
  point whose x-offset and y-offset from the centre are both zero the arc length returned
  is NaN: nothing fails and no point is left out.
\<close>

theorem findArcLength_zero_offset_NaN:
  assumes "i < length xy"
    and "xOffset xy center ! i = Fin 0" and "yOffset xy center ! i = Fin 0"
  shows "length (findArcLength xy center) = length xy \<and> findArcLength xy center ! i = NaN"
  using assms by (simp add: findArcLength_nth length_findArcLength)

theorem findArcLength_zero_offset_NaN_witness:
  "(1::nat) < length [(Fin 5, Fin 1), (Fin 3, Fin 4)] \<and>
   xOffset [(Fin 5, Fin 1), (Fin 3, Fin 4)] (Fin 3, Fin 4) ! 1 = Fin 0 \<and>
   yOffset [(Fin 5, Fin 1), (Fin 3, Fin 4)] (Fin 3, Fin 4) ! 1 = Fin 0 \<and>
   length (findArcLength [(Fin 5, Fin 1), (Fin 3, Fin 4)] (Fin 3, Fin 4)) = 2 \<and>
   findArcLength [(Fin 5, Fin 1), (Fin 3, Fin 4)] (Fin 3, Fin 4) ! 1 = NaN"
  using findArcLength_zero_offset_NaN
          [of 1 "[(Fin 5, Fin 1), (Fin 3, Fin 4)]" "(Fin 3, Fin 4)"]
  by (simp add: xOffset_def yOffset_def dsub_def)

text \<open>
  C9. Two points of one cloud whose offsets from the centre are \<open>(x, y)\<close> and
  \<open>(-x, -y)\<close>, with \<open>x\<close> other than zero, get the same arc length: the radius
  \<open>sqrt (x\<^sup>2 + y\<^sup>2)\<close> times the angle \<open>arctan (y / x)\<close>.
\<close>

theorem findArcLength_reflection:
  assumes "i < length xy" and "j < length xy"
    and "xOffset xy center ! i = Fin x" and "yOffset xy center ! i = Fin y"
    and "xOffset xy center ! j = Fin (- x)" and "yOffset xy center ! j = Fin (- y)"
    and "x \<noteq> 0"
  shows "findArcLength xy center ! i = Fin (sqrt (x\<^sup>2 + y\<^sup>2) * arctan (y / x)) \<and>
         findArcLength xy center ! j = findArcLength xy center ! i"
  using assms by (simp add: findArcLength_nth power2_eq_square not_less)

theorem findArcLength_reflection_witness:
  "(0::nat) < length [(Fin 4, Fin 6), (Fin (- 2), Fin (- 2))] \<and>
   (1::nat) < length [(Fin 4, Fin 6), (Fin (- 2), Fin (- 2))] \<and>
   xOffset [(Fin 4, Fin 6), (Fin (- 2), Fin (- 2))] (Fin 1, Fin 2) ! 0 = Fin 3 \<and>
   yOffset [(Fin 4, Fin 6), (Fin (- 2), Fin (- 2))] (Fin 1, Fin 2) ! 0 = Fin 4 \<and>
   xOffset [(Fin 4, Fin 6), (Fin (- 2), Fin (- 2))] (Fin 1, Fin 2) ! 1 = Fin (- 3) \<and>
   yOffset [(Fin 4, Fin 6), (Fin (- 2), Fin (- 2))] (Fin 1, Fin 2) ! 1 = Fin (- 4) \<and>
   (3::real) \<noteq> 0 \<and>
   findArcLength [(Fin 4, Fin 6), (Fin (- 2), Fin (- 2))] (Fin 1, Fin 2) ! 0
     = Fin (5 * arctan (4 / 3)) \<and>
   findArcLength [(Fin 4, Fin 6), (Fin (- 2), Fin (- 2))] (Fin 1, Fin 2) ! 1
     = findArcLength [(Fin 4, Fin 6), (Fin (- 2), Fin (- 2))] (Fin 1, Fin 2) ! 0"
proof -
  have s: "sqrt (3\<^sup>2 + 4\<^sup>2) = (5::real)"
    by (rule real_sqrt_unique) simp_all
  show ?thesis
    using findArcLength_reflection
            [of 0 "[(Fin 4, Fin 6), (Fin (- 2), Fin (- 2))]" 1 "(Fin 1, Fin 2)" 3 4]
    by (simp add: xOffset_def yOffset_def dsub_def s)
qed

section \<open>Facts about the classifier\<close>

lemma fold_preserves:
  assumes "P s" and "\<And>x t. x \<in> set xs \<Longrightarrow> P t \<Longrightarrow> P (f x t)"
  shows "P (fold f xs s)"
  using assms by (induction xs arbitrary: s) simp_all

lemmas classify_eval =
  classifyLoop_def lineStep_def lineDist_def pointStep_def initialState_def newResult_def
  houghLineFunc_def dsub_def coeffAdd_def Let_def classifyPoints_def col2_def
  eliminateLines_def eliminateLine_def eliminatePoint_def

subsection \<open>One step of the inner loop\<close>

text \<open>
  A point that has no line yet and is closer to the current line than before: the
  decrement reads \<open>pointsPerLine(-1)\<close>, and the step ends there. A point that has a line:
  the counter of that line goes down, the counter of the current line goes up, and the
  label and the distance of the point change together.
\<close>

lemma pointStep_unassigned:
  assumes "labels (result st) ! p = - 1"
  shows "pointStep l ds p st =
           (if dless (ds ! p) (distancesToNearestLine (result st) ! p)
            then Inl (IndexOutOfRange (- 1)) else Inr st)"
  using assms by (simp add: pointStep_def coeffAdd_def Let_def)

lemma pointStep_reassigned:
  assumes "dless (ds ! p) (distancesToNearestLine (result st) ! p)"
    and "labels (result st) ! p = int k" and "k < length (pointsPerLine st)"
    and "l < length (pointsPerLine st)"
  shows "pointStep l ds p st =
           Inr \<lparr>result =
                 \<lparr>labels = (labels (result st))[p := int l],
                  distancesToNearestLine = (distancesToNearestLine (result st))[p := ds ! p]\<rparr>,
               pointsPerLine =
                 ((pointsPerLine st)[k := pointsPerLine st ! k - 1])
                   [l := ((pointsPerLine st)[k := pointsPerLine st ! k - 1]) ! l + 1]\<rparr>"
  using assms by (simp add: pointStep_def coeffAdd_def Let_def)

subsection \<open>What \<open>classifyPoints\<close> returns\<close>

text \<open>
  Every point starts with the label \<open>-1\<close> and the distance \<open>+\<infinity>\<close>. The first point that is
  closer than that to a line ends the run at the decrement; if there is none, no step
  changes the state. So \<open>classifyPoints\<close> either fails or returns the result its
  constructor built.
\<close>

lemma initialState_nth:
  "p < n \<Longrightarrow> labels (result (initialState n m)) ! p = - 1 \<and>
             distancesToNearestLine (result (initialState n m)) ! p = PInf"
  by (simp add: initialState_def newResult_def)

lemma forEach_points_initial:
  assumes "set ps \<subseteq> {..<n}"
  shows "forEach (pointStep l ds) ps (initialState n m) =
           (if \<exists>p\<in>set ps. dless (ds ! p) PInf then Inl (IndexOutOfRange (- 1))
            else Inr (initialState n m))"
  using assms
proof (induction ps)
  case Nil
  then show ?case by simp
next
  case (Cons p ps)
  then have p: "p < n" and ps: "set ps \<subseteq> {..<n}" by simp_all
  have step: "pointStep l ds p (initialState n m) =
                (if dless (ds ! p) PInf then Inl (IndexOutOfRange (- 1))
                 else Inr (initialState n m))"
    using pointStep_unassigned [of "initialState n m" p l ds] initialState_nth [OF p, of m]
    by simp
  show ?case
    using Cons.IH [OF ps] by (simp add: step)
qed

lemma lineStep_initial:
  "lineStep zs arclens maxAngle radii l (initialState (length zs) m) =
     (if \<exists>p<length zs. dless (lineDist zs arclens maxAngle (radii ! l) ! p) PInf
      then Inl (IndexOutOfRange (- 1)) else Inr (initialState (length zs) m))"
proof -
  have "set [0..<length zs] \<subseteq> {..<length zs}" by auto
  from forEach_points_initial [OF this, of l "lineDist zs arclens maxAngle (radii ! l)" m]
  show ?thesis by (simp add: lineStep_def Let_def Bex_def)
qed

lemma forEach_lines_initial:
  "forEach (lineStep zs arclens maxAngle radii) ls (initialState (length zs) m) =
     (if \<exists>l\<in>set ls. \<exists>p<length zs. dless (lineDist zs arclens maxAngle (radii ! l) ! p) PInf
      then Inl (IndexOutOfRange (- 1)) else Inr (initialState (length zs) m))"
  by (induction ls) (simp_all add: lineStep_initial)

lemma classifyLoop_eq:
  "classifyLoop zs arclens maxAngle radii =
     (if \<exists>l<length radii. \<exists>p<length zs.
           dless (lineDist zs arclens maxAngle (radii ! l) ! p) PInf
      then Inl (IndexOutOfRange (- 1))
      else Inr (initialState (length zs) (length radii)))"
  using forEach_lines_initial [of zs arclens maxAngle radii "[0..<length radii]" "length radii"]
  by (simp add: classifyLoop_def Bex_def)

lemma eliminateLines_newResult:
  "eliminateLines minPointsPerLine counts n (newResult n) = newResult n"
proof -
  let ?P = "\<lambda>r. r = newResult n"
  have pt: "fold (eliminatePoint l) [0..<n] (newResult n) = newResult n" for l
    by (rule fold_preserves [where P = ?P])
       (simp_all add: eliminatePoint_def newResult_def)
  show ?thesis
    unfolding eliminateLines_def
    by (rule fold_preserves [where P = ?P]) (simp_all add: eliminateLine_def pt)
qed

lemma classifyPoints_eq:
  "classifyPoints minPointsPerLine xyz arclens maxAngle radii =
     (if 0 < length radii \<and> length arclens \<noteq> length xyz then Inl SizeMismatch
      else if \<exists>l<length radii. \<exists>p<length xyz.
                dless (lineDist (col2 xyz) arclens maxAngle (radii ! l) ! p) PInf
      then Inl (IndexOutOfRange (- 1))
      else Inr (newResult (length xyz)))"
proof -
  have n: "length (col2 xyz) = length xyz" by (simp add: col2_def)
  show ?thesis
    by (auto simp: classifyPoints_def Let_def classifyLoop_eq n initialState_def
        eliminateLines_newResult)
qed


lemma dless_PInf_dabs: "dless (dabs a) PInf \<longleftrightarrow> isFinite (dabs a)"
  by (cases a) simp_all

lemma lineDist_nth:
  "length arclens = length zs \<Longrightarrow> i < length zs \<Longrightarrow>
   lineDist zs arclens maxAngle rad ! i =
     dabs (dsub (houghLineFunc (zs ! i) rad maxAngle) (arclens ! i))"
  by (simp add: lineDist_def)

lemma classifyPoints_returns_unassigned:
  assumes "classifyPoints minPointsPerLine xyz arclens maxAngle radii = Inr res"
  shows "res = newResult (length xyz)"
  using assms by (simp add: classifyPoints_eq split: if_splits)

lemma classifyPoints_finite_distance_stops:
  assumes "length arclens = length xyz" and "l < length radii" and "p < length xyz"
    and "isFinite (lineDist (col2 xyz) arclens maxAngle (radii ! l) ! p)"
  shows "classifyPoints minPointsPerLine xyz arclens maxAngle radii = Inl (IndexOutOfRange (- 1))"
proof -
  have len: "length arclens = length (col2 xyz)" using assms(1) by (simp add: col2_def)
  have "p < length (col2 xyz)" using assms(3) by (simp add: col2_def)
  from lineDist_nth [OF len this] assms(4)
  have "dless (lineDist (col2 xyz) arclens maxAngle (radii ! l) ! p) PInf"
    by (simp add: dless_PInf_dabs)
  then show ?thesis
    using assms(1,2,3) by (auto simp: classifyPoints_eq)
qed



text \<open>
  C4 (the source departs from it). Three points at depth 0 with arc lengths 0, 1 and 10,
  the angle \<open>\<pi>/2\<close> and the radii 0 and 10. Point 0 lies on line 0 and has no previous
  line. Its step decrements \<open>pointsPerLine(-1)\<close> all the same and ends there: the counter
  of line 0 is not incremented, the label and the distance are not updated, and
  \<open>classifyPoints\<close> does not return.
\<close>

theorem pointStep_decrements_without_previous_line:
  "pointStep 0 (lineDist [Fin 0, Fin 0, Fin 0] [Fin 0, Fin 1, Fin 10] (Fin (pi / 2)) (Fin 0)) 0
     (initialState 3 2) = Inl (IndexOutOfRange (- 1)) \<and>
   classifyPoints 2 [(Fin 0, Fin 0, Fin 0), (Fin 0, Fin 0, Fin 0), (Fin 0, Fin 0, Fin 0)]
     [Fin 0, Fin 1, Fin 10] (Fin (pi / 2)) [Fin 0, Fin 10] = Inl (IndexOutOfRange (- 1))"
  by (simp add: classify_eval upt_rec)

text \<open>
  C10 (the source departs from it). One point that lies on the one line: its label is
  \<open>-1\<close> when it is to be assigned, and the source decrements \<open>pointsPerLine(-1)\<close>,
  outside the array.
\<close>

theorem classifyLoop_decrements_outside_array:
  "classifyLoop [Fin 0] [Fin 0] (Fin (pi / 2)) [Fin 0] = Inl (IndexOutOfRange (- 1))"
  by (simp add: classify_eval)

subsection \<open>The elimination loop\<close>

text \<open>
  C2 (the source departs from it). Three points with the labels 0, 0 and 1 and the
  distances 0, 1 and 0, the counters 2 and 1, and a minimum population of 2. Line 1 holds
  one point and is eliminated. Points 0 and 1 belong to line 0, which survives; they keep
  their label, and the elimination of line 1 replaces their distances by \<open>+\<infinity>\<close>.
\<close>

theorem eliminateLines_resets_all_distances:
  "eliminateLines 2 [2, 1] 3
     \<lparr>labels = [0, 0, 1], distancesToNearestLine = [Fin 0, Fin 1, Fin 0]\<rparr>
     = \<lparr>labels = [0, 0, - 1], distancesToNearestLine = [PInf, PInf, PInf]\<rparr>"
  by (simp add: eliminateLines_def eliminateLine_def eliminatePoint_def upt_rec)

subsection \<open>The distance that is compared\<close>

text \<open>
  The distance of a point to a line, as the line loop computes it, is the offset between
  the point and the line along the arc-length axis. When it is finite, the depth, the arc
  length, the radius and the angle are finite, the sine of the angle is not zero, and the
  offset is the perpendicular distance divided by \<open>\<bar>sin t\<bar>\<close>: at the angle \<open>\<pi>/6\<close>, twice
  the perpendicular distance.
\<close>

lemma isFinite_dabs_dsub:
  assumes "isFinite (dabs (dsub u s))"
  shows "\<exists>a b. u = Fin a \<and> s = Fin b"
  using assms by (cases u; cases s) (simp_all add: dsub_def)

lemma ddiv_NaN_right: "ddiv x NaN = NaN"
  by (cases x) simp_all

lemma houghLineFunc_Fin:
  assumes "houghLineFunc z r t = Fin a"
  shows "\<exists>z' r' t'. z = Fin z' \<and> r = Fin r' \<and> t = Fin t' \<and> sin t' \<noteq> 0 \<and>
           a = (r' - z' * cos t') / sin t'"
proof (cases t)
  case (Fin t')
  show ?thesis
  proof (cases z)
    case z: (Fin z')
    show ?thesis
      using assms Fin z
      by (cases r) (auto simp: houghLineFunc_def dsub_def infOfSign_def split: if_splits)
  next
    case PInf
    then show ?thesis
      using assms Fin
      by (cases r) (auto simp: houghLineFunc_def dsub_def infOfSign_def split: if_splits)
  next
    case NInf
    then show ?thesis
      using assms Fin
      by (cases r) (auto simp: houghLineFunc_def dsub_def infOfSign_def split: if_splits)
  next
    case NaN
    then show ?thesis
      using assms Fin
      by (cases r) (auto simp: houghLineFunc_def dsub_def infOfSign_def split: if_splits)
  qed
next
  case PInf
  then show ?thesis using assms by (simp add: houghLineFunc_def ddiv_NaN_right)
next
  case NInf
  then show ?thesis using assms by (simp add: houghLineFunc_def ddiv_NaN_right)
next
  case NaN
  then show ?thesis using assms by (simp add: houghLineFunc_def ddiv_NaN_right)
qed

lemma offset_times_sin:
  assumes "sin t \<noteq> 0"
  shows "\<bar>(r - z * cos t) / sin t - s\<bar> * \<bar>sin t\<bar> = perpendicularDistance z s t r"
proof -
  have "((r - z * cos t) / sin t - s) * sin t = r - z * cos t - s * sin t"
    using assms by (simp add: field_simps)
  then have "\<bar>(r - z * cos t) / sin t - s\<bar> * \<bar>sin t\<bar> = \<bar>r - z * cos t - s * sin t\<bar>"
    by (simp only: abs_mult [symmetric])
  also have "\<dots> = \<bar>z * cos t + s * sin t - r\<bar>"
    by (simp add: abs_minus_commute algebra_simps)
  finally show ?thesis by (simp add: perpendicularDistance_def)
qed

lemma lineDist_is_arc_offset:
  assumes "length arclens = length zs" and "i < length zs"
    and "isFinite (lineDist zs arclens maxAngle rad ! i)"
  shows "\<exists>z s r t. zs ! i = Fin z \<and> arclens ! i = Fin s \<and> rad = Fin r \<and> maxAngle = Fin t \<and>
           sin t \<noteq> 0 \<and>
           lineDist zs arclens maxAngle rad ! i = Fin \<bar>(r - z * cos t) / sin t - s\<bar> \<and>
           \<bar>(r - z * cos t) / sin t - s\<bar> * \<bar>sin t\<bar> = perpendicularDistance z s t r"
proof -
  have d: "lineDist zs arclens maxAngle rad ! i =
             dabs (dsub (houghLineFunc (zs ! i) rad maxAngle) (arclens ! i))"
    using assms(1,2) by (rule lineDist_nth)
  from assms(3) d obtain a s where a: "houghLineFunc (zs ! i) rad maxAngle = Fin a"
    and s: "arclens ! i = Fin s"
    using isFinite_dabs_dsub by metis
  from houghLineFunc_Fin [OF a] obtain z r t where
    zrt: "zs ! i = Fin z" "rad = Fin r" "maxAngle = Fin t" "sin t \<noteq> 0"
      "a = (r - z * cos t) / sin t"
    by blast
  have "lineDist zs arclens maxAngle rad ! i = Fin \<bar>(r - z * cos t) / sin t - s\<bar>"
    using d a s zrt(5) by (simp add: dsub_def)
  with s zrt offset_times_sin [OF zrt(4)] show ?thesis
    by blast
qed

lemma lineDist_thirty_degrees:
  "lineDist [Fin 0] [Fin 0] (Fin (pi / 6)) (Fin 1) = [Fin 2] \<and>
   perpendicularDistance 0 0 (pi / 6) 1 = 1"
  by (simp add: lineDist_def houghLineFunc_def dsub_def sin_30 perpendicularDistance_def)


section \<open>Facts about the angle estimator\<close>

lemma length_allIndices:
  "0 \<le> getNumBins hs \<Longrightarrow> int (length (allIndices hs)) = getNumBins hs * getNumBins hs"
  by (simp add: allIndices_def length_concat comp_def sum_list_triv)

lemma set_allIndices:
  "p \<in> set (allIndices hs) \<Longrightarrow> 0 \<le> fst p \<and> fst p \<le> getNumBins hs - 1"
  by (auto simp: allIndices_def)

lemma fst_accumulate: "fst (accumulate xs init) = fst init + sum_list (map fst xs)"
  unfolding accumulate_def
  by (induction xs arbitrary: init) (simp_all add: coefAdd_def)

lemma sum_list_bounds:
  fixes xs :: "int list"
  assumes "\<forall>x\<in>set xs. 0 \<le> x \<and> x \<le> c"
  shows "0 \<le> sum_list xs \<and> sum_list xs \<le> c * int (length xs)"
  using assms by (induction xs) (auto simp: algebra_simps)

lemma real_sum_list: "(\<Sum>p\<leftarrow>xs. real_of_int (f p)) = real_of_int (sum_list (map f xs))"
  by (induction xs) simp_all

lemma sdiv_nonneg:
  fixes a b :: int
  assumes "0 \<le> a" and "0 < b"
  shows "a sdiv b = a div b"
  using assms by (cases "a = 0") (simp_all add: signed_divide_int_def)

lemma sorted_take_drop:
  assumes "sorted (map f xs)" and "q \<in> set (take m xs)" and "p \<in> set (drop m xs)"
  shows "f q \<le> f p"
proof -
  have "sorted (map f (take m xs) @ map f (drop m xs))"
    using assms(1) by (simp flip: map_append)
  then show ?thesis
    using assms(2,3) by (auto simp: sorted_append)
qed

lemma sortedBy_binLess:
  assumes "sortedBy (binLess hs) xs ys"
  shows "sorted (map (binValue hs) ys)"
proof -
  have "sorted_wrt (\<lambda>a b. \<not> binLess hs b a) ys"
    using assms by (simp add: sortedBy_def)
  then have "sorted_wrt (\<lambda>a b. binValue hs a \<le> binValue hs b) ys"
    by (simp add: binLess_def binValue_def not_less)
  then show ?thesis by (simp add: sorted_map)
qed

text \<open>
  C8. For a Hough space of \<open>B\<close> by \<open>B\<close> bins and \<open>1 \<le> K \<le> B\<^sup>2\<close>, and whatever
  \<open>std::sort\<close> does within its contract for the comparison of the source:
  \<open>findMaxAngleBin\<close> returns; the sorted list ascends by accumulator value; the value
  returned is the floor of the mean of the angle bins of its last \<open>K\<close> pairs; these \<open>K\<close>
  pairs have values at least as large as those of all other pairs; and the value returned
  lies in \<open>[0, B)\<close>.
\<close>

theorem findMaxAngleBin_bound:
  assumes bins: "0 \<le> getNumBins hs"
    and k: "1 \<le> K" "K \<le> getNumBins hs * getNumBins hs"
    and srt: "sortedBy (binLess hs) (allIndices hs) (stdsort (binLess hs) (allIndices hs))"
  shows "\<exists>r. findMaxAngleBin stdsort K hs = Inr r \<and> 0 \<le> r \<and> r < getNumBins hs \<and>
           sorted (map (binValue hs) (stdsort (binLess hs) (allIndices hs))) \<and>
           length (drop (length (allIndices hs) - nat K) (stdsort (binLess hs) (allIndices hs)))
             = nat K \<and>
           r = \<lfloor>(\<Sum>p\<leftarrow>drop (length (allIndices hs) - nat K)
                             (stdsort (binLess hs) (allIndices hs)). real_of_int (fst p))
                  / real_of_int K\<rfloor> \<and>
           (\<forall>p\<in>set (drop (length (allIndices hs) - nat K)
                          (stdsort (binLess hs) (allIndices hs))).
            \<forall>q\<in>set (take (length (allIndices hs) - nat K)
                          (stdsort (binLess hs) (allIndices hs))).
              binValue hs q \<le> binValue hs p)"
proof -
  let ?idx = "stdsort (binLess hs) (allIndices hs)"
  let ?m = "length (allIndices hs) - nat K"
  let ?last = "drop ?m ?idx"
  let ?total = "sum_list (map fst ?last)"
  have perm: "mset ?idx = mset (allIndices hs)"
    using srt by (simp add: sortedBy_def)
  have sorted: "sorted (map (binValue hs) ?idx)"
    using srt by (rule sortedBy_binLess)
  have len: "length ?idx = length (allIndices hs)"
    using perm by (rule mset_eq_length)
  have kle: "K \<le> int (length ?idx)"
    using k(2) length_allIndices [OF bins] len by simp
  then have lenlast: "length ?last = nat K"
    using k(1) len by simp
  have "set ?idx = set (allIndices hs)"
    using perm by (rule mset_eq_setD)
  then have "\<forall>x\<in>set (map fst ?last). 0 \<le> x \<and> x \<le> getNumBins hs - 1"
    using set_allIndices [of _ hs] by (auto dest: in_set_dropD)
  from sum_list_bounds [OF this]
  have tot: "0 \<le> ?total" "?total \<le> (getNumBins hs - 1) * K"
    using lenlast k(1) by simp_all
  have kpos: "0 < K" using k(1) by simp
  have "?total div K \<le> ((getNumBins hs - 1) * K) div K"
    using tot(2) kpos by (rule zdiv_mono1)
  then have up: "?total div K < getNumBins hs"
    using kpos by simp
  have lo: "0 \<le> ?total div K"
    using tot(1) kpos by (simp add: pos_imp_zdiv_nonneg_iff)
  have res: "findMaxAngleBin stdsort K hs = Inr (?total div K)"
    using kle k(1) len tot(1) kpos
    by (simp add: findMaxAngleBin_def Let_def fst_accumulate sdiv_nonneg)
  have fl: "?total div K = \<lfloor>(\<Sum>p\<leftarrow>?last. real_of_int (fst p)) / real_of_int K\<rfloor>"
    by (simp add: real_sum_list floor_divide_of_int_eq)
  have top: "\<forall>p\<in>set ?last. \<forall>q\<in>set (take ?m ?idx). binValue hs q \<le> binValue hs p"
    using sorted_take_drop [OF sorted] by blast
  show ?thesis
    using res lo up sorted lenlast fl top by blast
qed

theorem findMaxAngleBin_bound_witness:
  "0 \<le> getNumBins twoByTwo \<and> (1::int) \<le> 2 \<and> 2 \<le> getNumBins twoByTwo * getNumBins twoByTwo \<and>
   sortedBy (binLess twoByTwo) (allIndices twoByTwo)
     (insertionSort (binLess twoByTwo) (allIndices twoByTwo)) \<and>
   allIndices twoByTwo = [(0, 0), (0, 1), (1, 0), (1, 1)] \<and>
   insertionSort (binLess twoByTwo) (allIndices twoByTwo) = [(0, 1), (0, 0), (1, 1), (1, 0)] \<and>
   map (binValue twoByTwo) [(0, 1), (0, 0), (1, 1), (1, 0)] = [1, 5, 7, 9] \<and>
   findMaxAngleBin insertionSort 2 twoByTwo = Inr 1"
proof -
  have a: "allIndices twoByTwo = [(0, 0), (0, 1), (1, 0), (1, 1)]"
    by (simp add: allIndices_def twoByTwo_def upto_rec1)
  have s: "insertionSort (binLess twoByTwo) [(0, 0), (0, 1), (1, 0), (1, 1)]
             = [(0, 1), (0, 0), (1, 1), (1, 0)]"
    by (simp add: twoByTwo_def insertionSort_def binLess_def)
  have v: "map (binValue twoByTwo) [(0, 1), (0, 0), (1, 1), (1, 0)] = [1, 5, 7, 9]"
    by (simp add: binValue_def twoByTwo_def)
  have b: "getNumBins twoByTwo = 2"
    by (simp add: twoByTwo_def)
  have h1: "0 \<le> getNumBins twoByTwo" and h2: "(1::int) \<le> 2"
    and h3: "2 \<le> getNumBins twoByTwo * getNumBins twoByTwo"
    by (simp_all add: b)
  have h4: "sortedBy (binLess twoByTwo) (allIndices twoByTwo)
              (insertionSort (binLess twoByTwo) (allIndices twoByTwo))"
    by (simp add: a s sortedBy_def) (simp add: binLess_def twoByTwo_def)
  have "findMaxAngleBin insertionSort 2 twoByTwo = Inr 1"
    using findMaxAngleBin_bound [of twoByTwo 2 insertionSort, OF h1 h2 h3 h4]
    by (simp add: a s)
  then show ?thesis
    using h1 h2 h3 h4 v by (simp add: a s)
qed

section \<open>Facts about the peak locator\<close>

lemmas peak_eval = findPeakRadiusBins_def peakCtrOfGrav_def segment_def firstPtOf_def
  lastPtOf_def ddot_def castDouble_def Let_def

lemma real_moment_list:
  "(\<Sum>k\<leftarrow>ks. real_of_int k * real_of_int (g k)) = real_of_int (\<Sum>k\<leftarrow>ks. k * g k)"
  by (induction ks) simp_all

lemma dsum_Fin: "dsum (map (\<lambda>k. Fin (f k)) ks) = Fin (sum_list (map f ks))"
  by (induction ks) simp_all

lemma upto_nth_take_drop:
  assumes "0 \<le> a" and "b < int (length xs)"
  shows "map (\<lambda>k. xs ! nat k) [a..b] = take (nat (b - a + 1)) (drop (nat a) xs)"
  using assms
proof (induction "nat (b - a + 1)" arbitrary: a)
  case 0
  then have "b < a" by simp
  then show ?case by simp
next
  case (Suc n)
  then have ab: "a \<le> b" and n: "n = nat (b - (a + 1) + 1)" by simp_all
  have a: "nat a < length xs" using Suc.prems ab by simp
  have ih: "map (\<lambda>k. xs ! nat k) [a + 1..b] = take (nat (b - (a + 1) + 1)) (drop (nat (a + 1)) xs)"
    using Suc.hyps(1) [OF n] Suc.prems by simp
  have "nat (b - a + 1) = Suc (nat (b - (a + 1) + 1))" using ab by simp
  moreover have "drop (nat a) xs = xs ! nat a # drop (nat (a + 1)) xs"
    using a Suc.prems(1) by (simp add: Cons_nth_drop_Suc nat_add_distrib)
  moreover have "[a..b] = a # [a + 1..b]" using ab by (simp add: upto_rec1)
  ultimately show ?case using ih by simp
qed

lemma peakCtrOfGrav_Inr:
  assumes "peakCtrOfGrav w slice p = Inr c"
  shows "lastPtOf w slice p = int (length slice) - 1 \<and>
         c = ddiv (Fin (real_of_int (windowMoment slice (codeWindow w slice p))))
                  (Fin (real_of_int (windowSum slice (codeWindow w slice p))))"
proof -
  let ?a = "firstPtOf w p" and ?b = "lastPtOf w slice p"
  from assms have rng: "0 \<le> ?a" "0 \<le> ?b - ?a + 1" "?a + (?b - ?a + 1) \<le> int (length slice)"
    by (auto simp: peakCtrOfGrav_def segment_def Let_def split: if_splits)
  have "int (length slice) - 1 \<le> ?b" by (simp add: lastPtOf_def)
  with rng(3) have last: "?b = int (length slice) - 1" by simp
  have seg: "segment slice ?a (?b - ?a + 1) = Inr (map (\<lambda>k. slice ! nat k) [?a..?b])"
    using rng upto_nth_take_drop [of ?a ?b slice] by (simp add: segment_def)
  have c: "c = ddiv (ddot (map castDouble [?a..?b])
                          (map castDouble (map (\<lambda>k. slice ! nat k) [?a..?b])))
                    (dsum (map castDouble (map (\<lambda>k. slice ! nat k) [?a..?b])))"
    using assms by (simp add: peakCtrOfGrav_def Let_def seg)
  have dot: "ddot (map castDouble [?a..?b]) (map castDouble (map (\<lambda>k. slice ! nat k) [?a..?b]))
               = Fin (real_of_int (windowMoment slice [?a..?b]))"
  proof -
    have "map2 dmul (map castDouble [?a..?b]) (map castDouble (map (\<lambda>k. slice ! nat k) [?a..?b]))
            = map (\<lambda>k. Fin (real_of_int (k * slice ! nat k))) [?a..?b]"
      by (simp add: zip_map_map castDouble_def zip_same_conv_map)
    then show ?thesis
      by (simp add: ddot_def dsum_Fin windowMoment_def real_moment_list)
  qed
  have sm: "dsum (map castDouble (map (\<lambda>k. slice ! nat k) [?a..?b]))
              = Fin (real_of_int (windowSum slice [?a..?b]))"
    unfolding map_map comp_def castDouble_def windowSum_def
    by (simp only: dsum_Fin real_sum_list)
  show ?thesis using last c dot sm by (simp add: codeWindow_def)
qed

lemma peakLoop_Inr:
  assumes "peakLoop w slice locs = Inr res"
  shows "length res = length locs \<and>
         (\<forall>k<length locs. peakCtrOfGrav w slice (locs ! k) = Inr (res ! k))"
  using assms
proof (induction locs arbitrary: res)
  case Nil
  then show ?case by simp
next
  case (Cons p ps)
  from Cons.prems obtain c cs where c: "peakCtrOfGrav w slice p = Inr c"
    and cs: "peakLoop w slice ps = Inr cs" and res: "res = c # cs"
    by (auto split: sum.splits)
  from Cons.IH [OF cs] c res show ?case
    by (auto simp: nth_Cons split: nat.splits)
qed

lemma sum_list_all_zero:
  fixes f :: "'a \<Rightarrow> int"
  shows "\<forall>x\<in>set xs. f x = 0 \<Longrightarrow> sum_list (map f xs) = 0"
  by (induction xs) simp_all

lemma window_zero_moment:
  assumes nonneg: "\<forall>v\<in>set slice. 0 \<le> v"
    and rng: "0 \<le> a" "b < int (length slice)"
    and zero: "windowSum slice [a..b] = 0"
  shows "windowMoment slice [a..b] = 0"
proof -
  have mem: "slice ! nat k \<in> set slice" if "k \<in> set [a..b]" for k
  proof (rule nth_mem)
    show "nat k < length slice" using that rng by (auto simp: nat_less_iff)
  qed
  have "\<forall>x\<in>set (map (\<lambda>k. slice ! nat k) [a..b]). 0 \<le> x"
    using mem nonneg by auto
  then have "\<forall>x\<in>set (map (\<lambda>k. slice ! nat k) [a..b]). x = 0"
    using zero by (simp add: windowSum_def sum_list_nonneg_eq_0_iff del: set_map)
  then have "\<forall>k\<in>set [a..b]. k * slice ! nat k = 0"
    by simp
  then show ?thesis
    unfolding windowMoment_def by (rule sum_list_all_zero)
qed

text \<open>
  C3 (the source departs from it). A slice of five bins with the peak at bin 1 and a
  half width of 1: the window of the specification is \<open>[0, 2]\<close> and its centroid is 1.
  The source takes the upper end of the window as the maximum of \<open>p + peakWidth\<close> and
  \<open>B - 1\<close>: its window is \<open>[0, 4]\<close> and it returns \<open>26 / 14\<close>.
\<close>

theorem findPeakRadiusBins_window_upper_bound:
  "findPeakRadiusBins (\<lambda>slice order. [1]) 1 [0, 10, 0, 0, 4] = Inr [Fin (13 / 7)] \<and>
   codeWindow 1 [0, 10, 0, 0, 4] 1 = [0, 1, 2, 3, 4] \<and>
   specWindow 1 [0, 10, 0, 0, 4] 1 = [0, 1, 2] \<and>
   specCentroid 1 [0, 10, 0, 0, 4] 1 = 1"
  by (simp add: peak_eval codeWindow_def specWindow_def specCentroid_def upto_rec1)

text \<open>
  C6 (as the specification states it, refuted). A slice of three empty bins and the peak
  at bin 1: the window sums to zero, and the list returned holds NaN for that peak.
\<close>

theorem findPeakRadiusBins_zero_window_counterexample:
  "findPeakRadiusBins (\<lambda>slice order. [1]) 1 [0, 0, 0] = Inr [NaN]"
  by (simp add: peak_eval upto_rec1)

text \<open>
  C6 (amended). When \<open>findPeakRadiusBins\<close> returns, the list has one entry for every
  peak found, in their order. The entry of a peak whose window sums to zero is not a
  finite number, and it is NaN when no bin of the slice is negative. No peak is rejected.
\<close>

theorem findPeakRadiusBins_zero_window:
  assumes ret: "findPeakRadiusBins findPeakLocations peakWidth houghSlice = Inr res"
    and k: "k < length (findPeakLocations houghSlice 2)"
    and zero: "windowSum houghSlice
                 (codeWindow peakWidth houghSlice (findPeakLocations houghSlice 2 ! k)) = 0"
  shows "length res = length (findPeakLocations houghSlice 2) \<and>
         \<not> isFinite (res ! k) \<and>
         (list_all (\<lambda>v. 0 \<le> v) houghSlice \<longrightarrow> res ! k = NaN)"
proof -
  let ?p = "findPeakLocations houghSlice 2 ! k"
  let ?win = "codeWindow peakWidth houghSlice ?p"
  from peakLoop_Inr [OF ret [unfolded findPeakRadiusBins_def]] k
  have len: "length res = length (findPeakLocations houghSlice 2)"
    and ctr: "peakCtrOfGrav peakWidth houghSlice ?p = Inr (res ! k)"
    by simp_all
  from peakCtrOfGrav_Inr [OF ctr]
  have last: "lastPtOf peakWidth houghSlice ?p = int (length houghSlice) - 1"
    and val: "res ! k = ddiv (Fin (real_of_int (windowMoment houghSlice ?win))) (Fin 0)"
    using zero by simp_all
  have nf: "\<not> isFinite (res ! k)"
    by (simp add: val infOfSign_def)
  have nan: "res ! k = NaN" if "\<forall>v\<in>set houghSlice. 0 \<le> v"
  proof -
    have "windowMoment houghSlice ?win = 0"
      unfolding codeWindow_def
      by (rule window_zero_moment [OF that])
         (use last zero in \<open>simp_all add: firstPtOf_def codeWindow_def\<close>)
    then show ?thesis by (simp add: val)
  qed
  show ?thesis using len nf nan by (simp add: list_all_iff)
qed

theorem findPeakRadiusBins_zero_window_witness:
  "findPeakRadiusBins (\<lambda>slice order. [1, 2]) 1 [4, 0, 0, 0] = Inr [Fin 0, NaN] \<and>
   (1::nat) < length [1, 2 :: int] \<and>
   windowSum [4, 0, 0, 0] (codeWindow 1 [4, 0, 0, 0] 2) = 0 \<and>
   list_all (\<lambda>v. 0 \<le> v) [4, 0, 0, 0 :: int] \<and>
   length [Fin 0, NaN] = length [1, 2 :: int] \<and>
   \<not> isFinite ([Fin 0, NaN] ! 1) \<and> [Fin 0, NaN] ! 1 = NaN"
  using findPeakRadiusBins_zero_window
          [of "\<lambda>slice order. [1, 2]" 1 "[4, 0, 0, 0]" "[Fin 0, NaN]" 1]
  by (simp add: peak_eval windowSum_def codeWindow_def upto_rec1)

end
